theory Spec2Isabelle
  imports Main "HOL-Library.AList" "HOL-Library.Multiset" "HOL-Library.Sublist"
begin

section \<open>The profile analyzer backend\<close>

text \<open>
  The backend exists in two near-identical copies (\<^verbatim>\<open>src/unnamed/part_000\<close> and
  \<^verbatim>\<open>src/unnamed/part_001\<close>); they differ in the format of the authorization header
  and in the wording of the mock review only. The functions modelled below
  (\<^verbatim>\<open>calculateHireabilityScore\<close>, \<^verbatim>\<open>filterLowValueRepos\<close> and the handler of
  \<^verbatim>\<open>GET /api/analyze/:username\<close>) are the same in both.
\<close>

subsection \<open>JavaScript numbers\<close>

text \<open>
  The numbers of the program are follower counts, repository sizes, byte counts and a
  score: integers far below \<open>2^53\<close>, where the doubles of JavaScript are exact. They
  are modelled as \<open>int\<close>, together with \<open>NaN\<close>, which the arithmetic produces from
  \<^verbatim>\<open>undefined\<close> and which every operation used here propagates.
\<close>

datatype jsnum = Num int | NaN

text \<open>\<^verbatim>\<open>a + b\<close> on numbers.\<close>

fun js_add :: "jsnum \<Rightarrow> jsnum \<Rightarrow> jsnum" where
  "js_add (Num a) (Num b) = Num (a + b)"
| "js_add _ _ = NaN"

text \<open>\<^verbatim>\<open>Math.min(a, b)\<close> and \<^verbatim>\<open>Math.max(a, b)\<close>: \<open>NaN\<close> if an argument is.\<close>

fun Math_min :: "jsnum \<Rightarrow> jsnum \<Rightarrow> jsnum" where
  "Math_min (Num a) (Num b) = Num (min a b)"
| "Math_min _ _ = NaN"

fun Math_max :: "jsnum \<Rightarrow> jsnum \<Rightarrow> jsnum" where
  "Math_max (Num a) (Num b) = Num (max a b)"
| "Math_max _ _ = NaN"

text \<open>
  \<^verbatim>\<open>Math.floor(x / d)\<close> for a positive integer constant \<open>d\<close>: on an integer \<open>x\<close> the
  floor of the quotient, which is \<open>div\<close> on \<open>int\<close> (it rounds towards minus infinity).
\<close>

fun Math_floor_div :: "jsnum \<Rightarrow> int \<Rightarrow> jsnum" where
  "Math_floor_div (Num x) d = Num (x div d)"
| "Math_floor_div NaN d = NaN"

text \<open>\<^verbatim>\<open>x * k\<close> and \<^verbatim>\<open>x - k\<close> with an integer constant \<open>k\<close>.\<close>

fun js_times :: "jsnum \<Rightarrow> int \<Rightarrow> jsnum" where
  "js_times (Num x) k = Num (x * k)"
| "js_times NaN k = NaN"

fun js_minus :: "jsnum \<Rightarrow> int \<Rightarrow> jsnum" where
  "js_minus (Num x) k = Num (x - k)"
| "js_minus NaN k = NaN"

subsection \<open>The data of a request\<close>

text \<open>
  The object parsed from the body of a profile response. Only \<^verbatim>\<open>followers\<close> is read by
  the code under study. A property is \<open>None\<close> when the object does not have it
  (\<^verbatim>\<open>profile.followers\<close> is \<^verbatim>\<open>undefined\<close>), as in the error objects the upstream sends
  with a failure status.
\<close>

record profile =
  login :: "string option"
  followers :: "int option"
  public_repos :: "int option"

text \<open>
  A repository: the properties the code reads. \<open>description\<close> is \<open>None\<close> where the
  upstream sends \<^verbatim>\<open>null\<close>.
\<close>

record repository =
  name :: string
  fork :: bool
  size :: int
  description :: "string option"

text \<open>
  A JavaScript object with string keys is an association list in insertion order;
  \<^verbatim>\<open>o[k] = v\<close> is \<^const>\<open>AList.update\<close> (it overwrites in place or appends),
  \<^verbatim>\<open>o[k]\<close> is \<^const>\<open>map_of\<close>. This is what an object literal \<^verbatim>\<open>{}\<close> does for a key
  that is not the name of a member of \<^verbatim>\<open>Object.prototype\<close>: for such a name
  \<^verbatim>\<open>o[k]\<close> reads the inherited member (and \<^verbatim>\<open>o["__proto__"] = v\<close> creates no
  entry), which the model does not follow. Keys that look like array indices are
  enumerated first by JavaScript; the model keeps insertion order for them too, which
  changes the order of the keys and not the mapping.
\<close>

type_synonym 'v jsobject = "(string \<times> 'v) list"

definition Object_keys :: "'v jsobject \<Rightarrow> string list" where
  "Object_keys obj = map fst obj"

definition Object_entries :: "'v jsobject \<Rightarrow> (string \<times> 'v) list" where
  "Object_entries obj = obj"

subsection \<open>The score calculator\<close>

text \<open>\<^verbatim>\<open>profile.followers\<close> as a number: \<^verbatim>\<open>undefined / 10\<close> is \<open>NaN\<close>.\<close>

definition followers_num :: "profile \<Rightarrow> jsnum" where
  "followers_num p = (case followers p of Some f \<Rightarrow> Num f | None \<Rightarrow> NaN)"

definition calculateHireabilityScore ::
  "profile \<Rightarrow> repository list \<Rightarrow> 'v jsobject \<Rightarrow> jsnum" where
  "calculateHireabilityScore prof repos langTotals =
     (let score = Num 0;
          publicReposCount = Num (int (length repos));
          score = js_add score (Math_min (Num 30) (Math_floor_div (followers_num prof) 10));
          score = js_add score
                    (Math_min (Num 30) (js_times (Math_floor_div publicReposCount 5) 2));
          languageCount = Num (int (length (Object_keys langTotals)));
          score = js_add score
                    (Math_min (Num 40) (Math_max (Num 0) (js_times (js_minus languageCount 1) 10)))
      in Math_min (Num 100) (Math_max (Num 0) score))"

text \<open>\<^verbatim>\<open>a <= b\<close> on numbers: false as soon as an operand is \<open>NaN\<close>.\<close>

fun js_le :: "jsnum \<Rightarrow> jsnum \<Rightarrow> bool" where
  "js_le (Num a) (Num b) = (a \<le> b)"
| "js_le _ _ = False"

text \<open>The three terms as the specification words them.\<close>

definition follower_term :: "int \<Rightarrow> int" where
  "follower_term f = min 30 (f div 10)"

definition volume_term :: "nat \<Rightarrow> int" where
  "volume_term repoCount = min 30 (int (repoCount div 5) * 2)"

definition diversity_term :: "nat \<Rightarrow> int" where
  "diversity_term distinctLanguageCount = min 40 (max 0 ((int distinctLanguageCount - 1) * 10))"

definition score_spec :: "int \<Rightarrow> nat \<Rightarrow> nat \<Rightarrow> int" where
  "score_spec f repoCount distinctLanguageCount =
     min 100 (max 0 (follower_term f + volume_term repoCount + diversity_term distinctLanguageCount))"

subsection \<open>Strings\<close>

text \<open>
  Strings are byte strings (UTF-8). \<^verbatim>\<open>toLowerCase\<close> is modelled on the ASCII letters;
  the code only searches the result for the ASCII word \<^verbatim>\<open>template\<close>, and no
  character outside ASCII lowercases to one of its letters.
\<close>

definition toLowerCase_char :: "char \<Rightarrow> char" where
  "toLowerCase_char c =
     (let n = of_char c :: nat in if 65 \<le> n \<and> n \<le> 90 then char_of (n + 32) else c)"

definition toLowerCase :: "string \<Rightarrow> string" where
  "toLowerCase s = map toLowerCase_char s"

text \<open>\<^verbatim>\<open>s.includes(t)\<close>: \<open>t\<close> occurs in \<open>s\<close> as a contiguous substring.\<close>

primrec String_includes :: "string \<Rightarrow> string \<Rightarrow> bool" where
  "String_includes [] t = (t = [])"
| "String_includes (c # cs) t = (prefix t (c # cs) \<or> String_includes cs t)"

subsection \<open>The repository filter\<close>

definition minLinesOfCode :: int where
  "minLinesOfCode = 100"

text \<open>
  The callback of \<^verbatim>\<open>repos.filter\<close>, its three tests in the order of the source. The
  third is \<^verbatim>\<open>repo.description && repo.description.toLowerCase().includes('template')\<close>:
  a \<^verbatim>\<open>null\<close> or empty description is falsy and the test is skipped.
\<close>

definition keepRepo :: "repository \<Rightarrow> bool" where
  "keepRepo repo =
     (if fork repo then False
      else if size repo < minLinesOfCode then False
      else if (case description repo of
                 None \<Rightarrow> False
               | Some d \<Rightarrow> d \<noteq> [] \<and> String_includes (toLowerCase d) ''template'')
           then False
      else True)"

definition filterLowValueRepos :: "repository list \<Rightarrow> repository list" where
  "filterLowValueRepos repos = filter keepRepo repos"

text \<open>
  The request's \<^verbatim>\<open>filter\<close> query parameter as Express hands it over: absent
  (\<^verbatim>\<open>undefined\<close>), one string, or an array or object when the parameter is repeated
  or bracketed.
\<close>

datatype query_value = QAbsent | QString string | QStructured

text \<open>\<^verbatim>\<open>const shouldFilter = req.query.filter === 'true'\<close>\<close>

definition shouldFilter :: "query_value \<Rightarrow> bool" where
  "shouldFilter q = (q = QString ''true'')"

text \<open>
  Step 3 of the handler:
  \<^verbatim>\<open>if (shouldFilter) { finalRepos = filterLowValueRepos(finalRepos); }\<close>
\<close>

definition conditionalFiltering :: "bool \<Rightarrow> repository list \<Rightarrow> repository list" where
  "conditionalFiltering enabled finalRepos =
     (if enabled then filterLowValueRepos finalRepos else finalRepos)"

text \<open>The filter as the specification words it: what makes a repository low-value.\<close>

definition low_value :: "repository \<Rightarrow> bool" where
  "low_value repo \<longleftrightarrow>
     fork repo \<or> size repo < 100 \<or>
     (\<exists>d. description repo = Some d \<and> (\<exists>before after. toLowerCase d = before @ ''template'' @ after))"

subsection \<open>The values of language maps\<close>

text \<open>
  The values in the bodies the upstream sends for a language request: byte counts in a
  language map, strings in an error object (\<^verbatim>\<open>{"message": ..., "documentation_url": ...}\<close>).
\<close>

datatype jsv = JNum int | JStr string

fun show_nat :: "nat \<Rightarrow> string" where
  "show_nat n =
     (if n < 10 then [char_of (48 + n)] else show_nat (n div 10) @ [char_of (48 + n mod 10)])"

declare show_nat.simps [simp del]

text \<open>The string of a value, as \<^verbatim>\<open>+\<close> builds it when an operand is a string.\<close>

fun ToString :: "jsv \<Rightarrow> string" where
  "ToString (JNum n) = (if n < 0 then CHR ''-'' # show_nat (nat (- n)) else show_nat (nat n))"
| "ToString (JStr s) = s"

text \<open>\<^verbatim>\<open>x || 0\<close>: a missing property, \<^verbatim>\<open>0\<close> and the empty string are falsy.\<close>

fun or_zero :: "jsv option \<Rightarrow> jsv" where
  "or_zero None = JNum 0"
| "or_zero (Some (JNum n)) = (if n = 0 then JNum 0 else JNum n)"
| "or_zero (Some (JStr s)) = (if s = [] then JNum 0 else JStr s)"

text \<open>\<^verbatim>\<open>a + b\<close>: addition of two numbers, concatenation as soon as one is a string.\<close>

fun js_plus :: "jsv \<Rightarrow> jsv \<Rightarrow> jsv" where
  "js_plus (JNum a) (JNum b) = JNum (a + b)"
| "js_plus a b = JStr (ToString a @ ToString b)"

subsection \<open>The language aggregation\<close>

text \<open>
  What \<^verbatim>\<open>fetch\<close> followed by \<^verbatim>\<open>.json()\<close> can give: \<^verbatim>\<open>fetch\<close> rejects (a network
  failure, with the message of the exception), or it resolves with a response of some
  status, whose body either is not JSON (\<^verbatim>\<open>.json()\<close> rejects, with a message) or
  parses to a value. \<^verbatim>\<open>fetch\<close> does not reject on a failure status.
\<close>

datatype 'a body = Unparseable string | Json 'a

datatype 'a fetched = Rejected string | Response nat "'a body"

datatype langs_json = JsonNull | JsonObject "jsv jsobject"

text \<open>
  The loop
  \<^verbatim>\<open>for (const [lang, bytes] of Object.entries(langs || {})) {
        langTotals[lang] = (langTotals[lang] || 0) + bytes; }\<close>
\<close>

fun add_entries :: "jsv jsobject \<Rightarrow> (string \<times> jsv) list \<Rightarrow> jsv jsobject" where
  "add_entries langTotals [] = langTotals"
| "add_entries langTotals ((lang, bytes) # rest) =
     add_entries (AList.update lang (js_plus (or_zero (map_of langTotals lang)) bytes) langTotals)
       rest"

text \<open>\<^verbatim>\<open>langs || {}\<close>\<close>

definition or_empty :: "langs_json \<Rightarrow> jsv jsobject" where
  "or_empty langs = (case langs of JsonNull \<Rightarrow> [] | JsonObject obj \<Rightarrow> obj)"

text \<open>
  The body of the callback of \<^verbatim>\<open>finalRepos.map\<close>, from the outcome of its request on:
  the \<^verbatim>\<open>try\<close> block, with \<^verbatim>\<open>catch(e) { }\<close> for the two rejections. The status of
  the response is not looked at.
\<close>

definition languages_callback :: "jsv jsobject \<Rightarrow> langs_json fetched \<Rightarrow> jsv jsobject" where
  "languages_callback langTotals lg =
     (case lg of
        Rejected e \<Rightarrow> langTotals
      | Response status (Unparseable e) \<Rightarrow> langTotals
      | Response status (Json langs) \<Rightarrow> add_entries langTotals (Object_entries (or_empty langs)))"

text \<open>
  The callbacks run to their first \<^verbatim>\<open>await\<close> in list order and finish in the order
  in which their requests complete; the loop of one callback has no \<^verbatim>\<open>await\<close>, so it
  runs undisturbed. \<open>aggregate\<close> takes the outcomes in completion order, starting
  from \<^verbatim>\<open>const langTotals = {}\<close>.
\<close>

definition aggregate :: "langs_json fetched list \<Rightarrow> jsv jsobject" where
  "aggregate outcomes = foldl languages_callback [] outcomes"

text \<open>
  A completion order is given by a list of choices: each choice picks, among the
  requests still pending, the one that completes next (when the choices run out, the
  rest completes in list order). Every choice list gives a permutation, and every
  permutation is given by some choice list.
\<close>

fun completion_order :: "nat list \<Rightarrow> 'a list \<Rightarrow> 'a list" where
  "completion_order cs [] = []"
| "completion_order [] (x # xs) = x # xs"
| "completion_order (c # cs) (x # xs) =
     (let i = c mod length (x # xs)
      in (x # xs) ! i # completion_order cs (take i (x # xs) @ drop (Suc i) (x # xs)))"

text \<open>The totals as the specification words them, for language maps with byte counts.\<close>

definition bytes_of :: "(string \<times> int) list \<Rightarrow> string \<Rightarrow> int" where
  "bytes_of m lang = (case map_of m lang of None \<Rightarrow> 0 | Some b \<Rightarrow> b)"

definition pointwise_sum :: "(string \<times> int) list list \<Rightarrow> string \<Rightarrow> jsv option" where
  "pointwise_sum ms lang =
     (if \<exists>m \<in> set ms. lang \<in> fst ` set m then Some (JNum (\<Sum>m\<leftarrow>ms. bytes_of m lang)) else None)"

text \<open>
  The names of the members of \<^verbatim>\<open>Object.prototype\<close>, which a plain object inherits.
\<close>

definition prototype_members :: "string list" where
  "prototype_members =
     [''constructor'', ''__proto__'', ''hasOwnProperty'', ''isPrototypeOf'',
      ''propertyIsEnumerable'', ''toLocaleString'', ''toString'', ''valueOf'',
      ''__defineGetter__'', ''__defineSetter__'', ''__lookupGetter__'', ''__lookupSetter__'']"

text \<open>\<^verbatim>\<open>Number.MAX_SAFE_INTEGER\<close>: up to it, the doubles are the integers and add exactly.\<close>

definition MAX_SAFE_INTEGER :: int where
  "MAX_SAFE_INTEGER = 2 ^ 53 - 1"

text \<open>
  A language map of the data model: its language names are not names of inherited
  members, and its byte counts are not negative.
\<close>

definition byte_map :: "(string \<times> int) list \<Rightarrow> bool" where
  "byte_map m = list_all (\<lambda>e. fst e \<notin> set prototype_members \<and> 0 \<le> snd e) m"

text \<open>All the bytes of all the maps: no sum the loop forms, in any order, exceeds it.\<close>

definition total_bytes :: "(string \<times> int) list list \<Rightarrow> int" where
  "total_bytes ms = (\<Sum>m\<leftarrow>ms. \<Sum>e\<leftarrow>m. snd e)"

text \<open>A language request that succeeds with the language map \<open>m\<close>.\<close>

definition fetched_bytes :: "(string \<times> int) list \<Rightarrow> langs_json fetched" where
  "fetched_bytes m = Response 200 (Json (JsonObject (map (\<lambda>(lang, b). (lang, JNum b)) m)))"

subsection \<open>The handler of \<^verbatim>\<open>GET /api/analyze/:username\<close>\<close>

text \<open>
  The upstream, as the three kinds of request of the handler see it: the outcome of the
  profile request and of the repository-list request for a user name, and of the
  language request for a user name and a repository name. A parsed profile body is an
  object; a parsed repository-list body is an array of repositories or anything else.
\<close>

datatype repos_json = NotArray | Array "repository list"

record upstream =
  users :: "string \<Rightarrow> profile fetched"
  user_repos :: "string \<Rightarrow> repos_json fetched"
  repo_languages :: "string \<Rightarrow> string \<Rightarrow> langs_json fetched"

datatype request = GetUser string | GetRepos string | GetLanguages string string

text \<open>
  The body of the successful response. The fifth property, \<^verbatim>\<open>aiReview\<close>, is a fixed
  mock text around the score and the first language key; no property below concerns it
  and it is left out.
\<close>

record analysis =
  profile :: profile
  repositories :: "repository list"
  languagesByBytes :: "jsv jsobject"
  hireabilityScore :: jsnum

text \<open>
  A response: \<^verbatim>\<open>res.status(n).json({ error: msg })\<close> or \<^verbatim>\<open>res.json({ ... })\<close>, whose
  status is 200.
\<close>

datatype response = Failure nat string | Success analysis

text \<open>The outer \<^verbatim>\<open>catch (err)\<close>.\<close>

definition internal_error :: "string \<Rightarrow> response" where
  "internal_error message = Failure 500 (''Internal Server Error: '' @ message)"

text \<open>\<^verbatim>\<open>Array.isArray(fetchedRepos) ? fetchedRepos : []\<close>\<close>

definition array_or_empty :: "repos_json \<Rightarrow> repository list" where
  "array_or_empty fetchedRepos = (case fetchedRepos of Array rs \<Rightarrow> rs | NotArray \<Rightarrow> [])"

text \<open>
  The handler, given the configured token (\<open>None\<close> when the variable is unset), the
  upstream, the completion order of the language requests, the user name and the
  \<^verbatim>\<open>filter\<close> query parameter. It returns the response together with the upstream
  requests it issued, in the order of issue.
\<close>

definition analyze ::
  "string option \<Rightarrow> upstream \<Rightarrow> nat list \<Rightarrow> string \<Rightarrow> query_value \<Rightarrow> response \<times> request list"
  where
  "analyze GITHUB_TOKEN up order username filter_param =
     (let enabled = shouldFilter filter_param in
      if GITHUB_TOKEN = None \<or> GITHUB_TOKEN = Some []
      then (Failure 500 ''Server configuration error: GitHub token missing.'', [])
      else
        case users up username of
          Rejected message \<Rightarrow> (internal_error message, [GetUser username])
        | Response status body \<Rightarrow>
            if status = 404 then (Failure 404 ''User not found'', [GetUser username])
            else if status = 401
            then (Failure 401 ''GitHub Token is invalid or expired.'', [GetUser username])
            else
              (case body of
                Unparseable message \<Rightarrow> (internal_error message, [GetUser username])
              | Json prof \<Rightarrow>
                  (case user_repos up username of
                     Rejected message \<Rightarrow>
                       (internal_error message, [GetUser username, GetRepos username])
                   | Response rep_status (Unparseable message) \<Rightarrow>
                       (internal_error message, [GetUser username, GetRepos username])
                   | Response rep_status (Json fetchedRepos) \<Rightarrow>
                       (let finalRepos = array_or_empty fetchedRepos;
                            finalRepos = conditionalFiltering enabled finalRepos;
                            langTotals =
                              aggregate
                                (map (\<lambda>repo. repo_languages up username (name repo))
                                   (completion_order order finalRepos));
                            score = calculateHireabilityScore prof finalRepos langTotals
                        in (Success \<lparr>profile = prof, repositories = finalRepos,
                                     languagesByBytes = langTotals, hireabilityScore = score\<rparr>,
                            [GetUser username, GetRepos username] @
                            map (\<lambda>repo. GetLanguages username (name repo)) finalRepos)))))"

subsection \<open>Auxiliary notions for the aggregation\<close>

text \<open>The entries one callback adds to the totals: none when its request throws.\<close>

definition merged_entries :: "langs_json fetched \<Rightarrow> (string \<times> jsv) list" where
  "merged_entries lg =
     (case lg of
        Rejected e \<Rightarrow> []
      | Response status (Unparseable e) \<Rightarrow> []
      | Response status (Json langs) \<Rightarrow> Object_entries (or_empty langs))"

fun is_number :: "jsv \<Rightarrow> bool" where
  "is_number (JNum n) = True"
| "is_number (JStr s) = False"

definition numeric :: "(string \<times> jsv) list \<Rightarrow> bool" where
  "numeric es = list_all (\<lambda>e. is_number (snd e)) es"

fun num_of :: "jsv option \<Rightarrow> int" where
  "num_of (Some (JNum n)) = n"
| "num_of _ = 0"

definition bytes_in :: "(string \<times> jsv) list \<Rightarrow> string \<Rightarrow> int" where
  "bytes_in es lang = (\<Sum>e\<leftarrow>filter (\<lambda>e. fst e = lang) es. num_of (Some (snd e)))"

subsection \<open>Example data\<close>

text \<open>Scenario A of the specification: 45 followers.\<close>

definition octocat :: profile where
  "octocat = \<lparr>login = Some ''octocat'', followers = Some 45, public_repos = Some 12\<rparr>"

definition newcomer :: profile where
  "newcomer = \<lparr>login = Some ''octocat'', followers = Some 0, public_repos = Some 1\<rparr>"

text \<open>
  The error object the upstream sends with a failure status, and the profile read from
  it.
\<close>

definition error_object :: "jsv jsobject" where
  "error_object = [(''message'', JStr ''API rate limit exceeded''),
                   (''documentation_url'', JStr ''https://docs.github.com/rest'')]"

definition error_profile :: profile where
  "error_profile = \<lparr>login = None, followers = None, public_repos = None\<rparr>"

text \<open>Scenario C: a fork, a small repository, a template, and two repositories to keep.\<close>

definition hello_repo :: repository where
  "hello_repo = \<lparr>name = ''hello'', fork = False, size = 150, description = None\<rparr>"

definition world_repo :: repository where
  "world_repo = \<lparr>name = ''world'', fork = False, size = 100, description = Some ''A demo''\<rparr>"

definition example_repos :: "repository list" where
  "example_repos =
     [\<lparr>name = ''forked'', fork = True, size = 500, description = None\<rparr>,
      hello_repo,
      \<lparr>name = ''tiny'', fork = False, size = 50, description = Some ''small''\<rparr>,
      \<lparr>name = ''starter'', fork = False, size = 500, description = Some ''My TEMPLATE repo''\<rparr>,
      world_repo]"

definition example_languages :: "string \<Rightarrow> langs_json fetched" where
  "example_languages repo =
     (if repo = ''hello'' then fetched_bytes [(''JavaScript'', 300), (''C'', 100)]
      else if repo = ''world'' then fetched_bytes [(''JavaScript'', 50)]
      else Rejected ''socket hang up'')"

definition example_upstream :: upstream where
  "example_upstream =
     \<lparr>users = \<lambda>username. Response 200 (Json octocat),
      user_repos = \<lambda>username. Response 200 (Json (Array example_repos)),
      repo_languages = \<lambda>username. example_languages\<rparr>"

text \<open>An upstream that answers every request with status 403 and the error object.\<close>

definition rate_limited :: upstream where
  "rate_limited =
     \<lparr>users = \<lambda>username. Response 403 (Json error_profile),
      user_repos = \<lambda>username. Response 403 (Json NotArray),
      repo_languages = \<lambda>username repo. Response 403 (Json (JsonObject error_object))\<rparr>"

text \<open>An upstream that does so for the language requests only.\<close>

definition languages_limited :: upstream where
  "languages_limited =
     \<lparr>users = \<lambda>username. Response 200 (Json newcomer),
      user_repos = \<lambda>username. Response 200 (Json (Array [hello_repo])),
      repo_languages = \<lambda>username repo. Response 403 (Json (JsonObject error_object))\<rparr>"

text \<open>Scenario D: the language maps of six repositories.\<close>

definition six_maps :: "(string \<times> int) list list" where
  "six_maps =
     [[(''JavaScript'', 300), (''C'', 100)], [(''JavaScript'', 50)], [],
      [(''Python'', 20), (''C'', 5)], [(''Go'', 7)], [(''C'', 1), (''JavaScript'', 2)]]"

section \<open>Properties\<close>

subsection \<open>The score\<close>

lemma calculateHireabilityScore_Some:
  "followers prof = Some f \<Longrightarrow>
   calculateHireabilityScore prof repos langTotals =
     Num (score_spec f (length repos) (length (Object_keys langTotals)))"
  by (simp add: calculateHireabilityScore_def followers_num_def score_spec_def follower_term_def
      volume_term_def diversity_term_def zdiv_int)

lemma calculateHireabilityScore_None:
  "followers prof = None \<Longrightarrow> calculateHireabilityScore prof repos langTotals = NaN"
  by (simp add: calculateHireabilityScore_def followers_num_def)

lemma keys_card:
  "distinct (Object_keys obj) \<Longrightarrow> length (Object_keys obj) = card (dom (map_of obj))"
  using distinct_card [of "map fst obj"]
  by (simp add: Object_keys_def dom_map_of_conv_image_fst)


lemma clamp_range:
  "Math_min (Num 100) (Math_max (Num 0) (Num x)) = Num (min 100 (max 0 x)) \<and>
   0 \<le> min 100 (max 0 x) \<and> min 100 (max 0 x) \<le> 100"
  by simp

lemma score_spec_mono:
  assumes "f1 \<le> f2" and "r1 \<le> r2" and "l1 \<le> l2"
  shows "score_spec f1 r1 l1 \<le> score_spec f2 r2 l2"
proof -
  have "f1 div 10 \<le> f2 div 10"
    using assms(1) by (simp add: zdiv_mono1)
  then have a: "follower_term f1 \<le> follower_term f2"
    unfolding follower_term_def by linarith
  have "int (r1 div 5) \<le> int (r2 div 5)"
    using assms(2) by (simp add: div_le_mono)
  then have b: "volume_term r1 \<le> volume_term r2"
    unfolding volume_term_def by linarith
  have "int l1 \<le> int l2"
    using assms(3) by simp
  then have "(int l1 - 1) * 10 \<le> (int l2 - 1) * 10"
    by simp
  then have c: "diversity_term l1 \<le> diversity_term l2"
    unfolding diversity_term_def by (intro min.mono max.mono order_refl)
  show ?thesis
    unfolding score_spec_def using a b c by linarith
qed

text \<open>
  Claim C1. For a profile with a follower count \<open>f\<close>, a repository list and a
  language-totals object (its keys distinct, as the keys of an object are), the score
  calculator returns exactly \<open>min(100, max(0, T_f + T_v + T_d))\<close> with
  \<open>T_f = min(30, floor(f / 10))\<close>, \<open>T_v = min(30, floor(repoCount / 5) * 2)\<close> for
  \<open>repoCount\<close> the length of the list, and \<open>T_d = min(40, max(0, (n - 1) * 10))\<close> for
  \<open>n\<close> the number of keys of the totals. In particular 45 followers, 12 repositories
  and 3 languages score 28.
\<close>

theorem score_formula:
  assumes "followers prof = Some f" and "distinct (Object_keys langTotals)"
  shows "calculateHireabilityScore prof repos langTotals =
           Num (min 100 (max 0
                  (min 30 (f div 10)
                   + min 30 (int (length repos) div 5 * 2)
                   + min 40 (max 0 ((int (card (dom (map_of langTotals))) - 1) * 10)))))
         \<and> (f = 45 \<and> length repos = 12 \<and> card (dom (map_of langTotals)) = 3
              \<longrightarrow> calculateHireabilityScore prof repos langTotals = Num 28)"
proof -
  have n: "length (Object_keys langTotals) = card (dom (map_of langTotals))"
    using assms(2) by (rule keys_card)
  have "calculateHireabilityScore prof repos langTotals =
          Num (score_spec f (length repos) (card (dom (map_of langTotals))))"
    using calculateHireabilityScore_Some [OF assms(1), of repos langTotals] n by simp
  then show ?thesis
    by (simp add: score_spec_def follower_term_def volume_term_def diversity_term_def zdiv_int)
qed

theorem score_formula_witness:
  "followers \<lparr>login = Some ''octocat'', followers = Some 45, public_repos = Some 12\<rparr> = Some 45
   \<and> distinct (Object_keys [(''JavaScript'', JNum 300), (''Python'', JNum 200), (''C'', JNum 100)])
   \<and> calculateHireabilityScore \<lparr>login = Some ''octocat'', followers = Some 45, public_repos = Some 12\<rparr>
        (replicate 12 \<lparr>name = ''repo'', fork = False, size = 150, description = None\<rparr>)
        [(''JavaScript'', JNum 300), (''Python'', JNum 200), (''C'', JNum 100)] = Num 28"
  using score_formula [of "\<lparr>login = Some ''octocat'', followers = Some 45, public_repos = Some 12\<rparr>" 45
      "[(''JavaScript'', JNum 300), (''Python'', JNum 200), (''C'', JNum 100)]"
      "replicate 12 \<lparr>name = ''repo'', fork = False, size = 150, description = None\<rparr>"]
  by (simp add: Object_keys_def)

text \<open>
  Claim C2, as stated, fails: for the profile read from an error object, which has no
  follower count, \<^verbatim>\<open>undefined / 10\<close> is \<open>NaN\<close> and the final
  \<^verbatim>\<open>Math.min(100, Math.max(0, score))\<close> returns \<open>NaN\<close>, which is neither at least 0 nor
  at most 100.
\<close>

theorem score_not_a_number:
  "followers error_profile = None
   \<and> calculateHireabilityScore error_profile example_repos [(''C'', JNum 1)] = NaN
   \<and> \<not> js_le (Num 0) (calculateHireabilityScore error_profile example_repos [(''C'', JNum 1)])
   \<and> \<not> js_le (calculateHireabilityScore error_profile example_repos [(''C'', JNum 1)]) (Num 100)"
  by (simp add: calculateHireabilityScore_def followers_num_def error_profile_def)

text \<open>
  Claim C2, amended. For a profile with a numeric follower count, any repository list
  and any language totals, the score is a number between 0 and 100: the last step of
  the calculator clamps whatever the three terms sum to.
\<close>

theorem score_in_range:
  assumes "followers prof = Some f"
  shows "\<exists>s. calculateHireabilityScore prof repos langTotals = Num s \<and> 0 \<le> s \<and> s \<le> 100"
proof -
  define x where "x = follower_term f + volume_term (length repos)
                        + diversity_term (length (Object_keys langTotals))"
  have "calculateHireabilityScore prof repos langTotals
          = Math_min (Num 100) (Math_max (Num 0) (Num x))"
    using assms
    by (simp add: calculateHireabilityScore_def followers_num_def x_def follower_term_def
        volume_term_def diversity_term_def zdiv_int)
  then show ?thesis
    using clamp_range [of x] by simp
qed

theorem score_in_range_witness:
  "followers \<lparr>login = Some ''a'', followers = Some (- 25), public_repos = Some 0\<rparr> = Some (- 25)
   \<and> (\<exists>s. calculateHireabilityScore \<lparr>login = Some ''a'', followers = Some (- 25), public_repos = Some 0\<rparr>
              [] ([] :: jsv jsobject) = Num s \<and> 0 \<le> s \<and> s \<le> 100)"
  using score_in_range [of "\<lparr>login = Some ''a'', followers = Some (- 25), public_repos = Some 0\<rparr>" "- 25"
      "[]" "[] :: jsv jsobject"]
  by simp

text \<open>
  Claim C8. With the other inputs fixed, the score does not decrease when the follower
  count grows, when the repository list gets longer (and it does not change while the
  length stays between the same two multiples of 5), or when the number of language
  keys grows.
\<close>

theorem score_monotone:
  assumes "followers p1 = Some f1" and "followers p2 = Some f2"
  shows "(f1 \<le> f2 \<longrightarrow>
            js_le (calculateHireabilityScore p1 repos lt) (calculateHireabilityScore p2 repos lt))
       \<and> (length repos1 \<le> length repos2 \<longrightarrow>
            js_le (calculateHireabilityScore p1 repos1 lt) (calculateHireabilityScore p1 repos2 lt))
       \<and> (length repos1 div 5 = length repos2 div 5 \<longrightarrow>
            calculateHireabilityScore p1 repos1 lt = calculateHireabilityScore p1 repos2 lt)
       \<and> (length (Object_keys lt1) \<le> length (Object_keys lt2) \<longrightarrow>
            js_le (calculateHireabilityScore p1 repos lt1) (calculateHireabilityScore p1 repos lt2))"
  using assms
  by (simp add: calculateHireabilityScore_Some score_spec_mono)
     (simp add: score_spec_def volume_term_def)

theorem score_monotone_witness:
  "followers newcomer = Some 0 \<and> followers octocat = Some 45 \<and> (0 :: int) \<le> 45
   \<and> js_le (calculateHireabilityScore newcomer [hello_repo] [(''C'', JNum 1)])
            (calculateHireabilityScore octocat [hello_repo] [(''C'', JNum 1)])
   \<and> length [hello_repo] \<le> length (replicate 12 hello_repo)
   \<and> js_le (calculateHireabilityScore newcomer [hello_repo] [(''C'', JNum 1)])
            (calculateHireabilityScore newcomer (replicate 12 hello_repo) [(''C'', JNum 1)])
   \<and> length [hello_repo] div 5 = length (replicate 4 hello_repo) div 5
   \<and> calculateHireabilityScore newcomer [hello_repo] [(''C'', JNum 1)]
       = calculateHireabilityScore newcomer (replicate 4 hello_repo) [(''C'', JNum 1)]
   \<and> length (Object_keys [(''C'', JNum 1)])
        \<le> length (Object_keys [(''C'', JNum 1), (''Go'', JNum 1), (''Python'', JNum 1)])
   \<and> js_le (calculateHireabilityScore newcomer [hello_repo] [(''C'', JNum 1)])
            (calculateHireabilityScore newcomer [hello_repo]
               [(''C'', JNum 1), (''Go'', JNum 1), (''Python'', JNum 1)])"
proof -
  have f: "followers newcomer = Some 0" "followers octocat = Some 45"
    by (simp_all add: newcomer_def octocat_def)
  show ?thesis
    using f
      score_monotone [OF f, of "[hello_repo]" "[(''C'', JNum 1)]" "[hello_repo]"
        "replicate 12 hello_repo" "[(''C'', JNum 1)]"
        "[(''C'', JNum 1), (''Go'', JNum 1), (''Python'', JNum 1)]"]
      score_monotone [OF f, of "[hello_repo]" "[(''C'', JNum 1)]" "[hello_repo]"
        "replicate 4 hello_repo" "[(''C'', JNum 1)]" "[(''C'', JNum 1)]"]
    by (simp add: Object_keys_def)
qed

subsection \<open>Strings and the filter\<close>

lemma includes_sublist: "String_includes s t \<longleftrightarrow> sublist t s"
  by (induction s) (simp_all add: sublist_Cons_right)

lemma includes_iff: "String_includes s t \<longleftrightarrow> (\<exists>before after. s = before @ t @ after)"
  by (simp add: includes_sublist sublist_def)

lemma keepRepo_iff: "keepRepo repo \<longleftrightarrow> \<not> low_value repo"
  by (auto simp: keepRepo_def low_value_def minLinesOfCode_def includes_iff toLowerCase_def
      split: option.splits)

lemma keepRepo_eq: "keepRepo = (\<lambda>repo. \<not> low_value repo)"
  by (rule ext) (simp add: keepRepo_iff)

text \<open>
  Claim C4. With the toggle off the repository list is left as it is. With the toggle
  on, the result keeps exactly the repositories that are none of: a fork, of size
  below 100, described with the word "template" in any letter case; the survivors
  stand in their original order and none is added.
\<close>

theorem filter_contract:
  "conditionalFiltering False repos = repos
   \<and> conditionalFiltering True repos = filter (\<lambda>repo. \<not> low_value repo) repos
   \<and> subseq (conditionalFiltering True repos) repos
   \<and> set (conditionalFiltering True repos) \<subseteq> set repos"
  by (simp add: conditionalFiltering_def filterLowValueRepos_def keepRepo_eq)

text \<open>Scenario C of the specification, on the example list.\<close>

lemma lower_small: "toLowerCase ''small'' = ''small''"
  by code_simp

lemma lower_template: "toLowerCase ''My TEMPLATE repo'' = ''my template repo''"
  by code_simp

lemma lower_demo: "toLowerCase ''A demo'' = ''a demo''"
  by code_simp

lemma filter_example:
  "conditionalFiltering False example_repos = example_repos
   \<and> conditionalFiltering True example_repos = [hello_repo, world_repo]"
  by (simp add: conditionalFiltering_def filterLowValueRepos_def keepRepo_def minLinesOfCode_def
      example_repos_def hello_repo_def world_repo_def lower_small lower_template lower_demo)

subsection \<open>The filter toggle\<close>

text \<open>
  Claim C10. The toggle is on exactly when the \<^verbatim>\<open>filter\<close> query parameter is the
  string \<^verbatim>\<open>true\<close>. With any other value (\<^verbatim>\<open>TRUE\<close>, \<^verbatim>\<open>1\<close>, \<^verbatim>\<open>yes\<close>, a repeated
  parameter, no parameter) the handler answers as it does without the parameter, on
  the unfiltered list.
\<close>

theorem filter_toggle:
  "(shouldFilter q \<longleftrightarrow> q = QString ''true'')
   \<and> (q \<noteq> QString ''true'' \<longrightarrow>
         analyze tok up order u q = analyze tok up order u QAbsent
         \<and> conditionalFiltering (shouldFilter q) repos = repos)
   \<and> \<not> shouldFilter (QString ''TRUE'') \<and> \<not> shouldFilter (QString ''1'')
   \<and> \<not> shouldFilter (QString ''yes'') \<and> \<not> shouldFilter QAbsent \<and> \<not> shouldFilter QStructured"
  by (simp add: shouldFilter_def analyze_def conditionalFiltering_def)

theorem filter_toggle_witness:
  "QString ''TRUE'' \<noteq> QString ''true''
   \<and> analyze (Some ''token'') example_upstream [1] ''octocat'' (QString ''TRUE'')
       = analyze (Some ''token'') example_upstream [1] ''octocat'' QAbsent
   \<and> conditionalFiltering (shouldFilter (QString ''TRUE'')) example_repos = example_repos"
proof -
  have ne: "QString ''TRUE'' \<noteq> QString ''true''"
    by simp
  show ?thesis
    using ne filter_toggle [of "QString ''TRUE''" "Some ''token''" example_upstream "[1]"
        "''octocat''" example_repos]
    by blast
qed

subsection \<open>The handler\<close>

text \<open>When, and with what, the handler answers with a result.\<close>

lemma analyze_SuccessD:
  assumes "analyze tok up order u q = (Success res, calls)"
  obtains t st prof st' fetchedRepos where
    "tok = Some t" and "t \<noteq> []" and "users up u = Response st (Json prof)"
    and "st \<noteq> 404" and "st \<noteq> 401" and "user_repos up u = Response st' (Json fetchedRepos)"
  using assms
  by (auto simp: analyze_def internal_error_def Let_def
      split: if_splits fetched.splits body.splits)

lemma analyze_Success:
  assumes "tok = Some t" and "t \<noteq> []" and "users up u = Response st (Json prof)"
    and "st \<noteq> 404" and "st \<noteq> 401" and "user_repos up u = Response st' (Json fetchedRepos)"
  shows "analyze tok up order u q =
           (let finalRepos = conditionalFiltering (shouldFilter q) (array_or_empty fetchedRepos);
                langTotals = aggregate (map (\<lambda>repo. repo_languages up u (name repo))
                                          (completion_order order finalRepos))
            in (Success \<lparr>profile = prof, repositories = finalRepos,
                         languagesByBytes = langTotals,
                         hireabilityScore = calculateHireabilityScore prof finalRepos langTotals\<rparr>,
                [GetUser u, GetRepos u] @ map (\<lambda>repo. GetLanguages u (name repo)) finalRepos))"
  using assms by (simp add: analyze_def Let_def)

text \<open>
  Claim C3, as stated, fails: with the upstream answering the profile request with
  status 403 and an error object, the handler goes on to the repository request and
  answers with status 200, an empty repository list and the score \<open>NaN\<close>.
\<close>

theorem other_status_not_reported:
  "users rate_limited ''octocat'' = Response 403 (Json error_profile)
   \<and> analyze (Some ''token'') rate_limited [] ''octocat'' QAbsent =
       (Success \<lparr>profile = error_profile, repositories = [], languagesByBytes = [],
                 hireabilityScore = NaN\<rparr>,
        [GetUser ''octocat'', GetRepos ''octocat''])"
  by (simp add: rate_limited_def analyze_def array_or_empty_def conditionalFiltering_def
      shouldFilter_def aggregate_def calculateHireabilityScore_def followers_num_def
      error_profile_def)

text \<open>
  Claim C3, amended. With a token configured, if the upstream answers the profile
  request with status 404 the handler responds 404 with the error \<^verbatim>\<open>User not found\<close>,
  and with status 401 it responds 401 with the error
  \<^verbatim>\<open>GitHub Token is invalid or expired.\<close>; in both cases the profile request is the only
  upstream request issued.
\<close>

theorem profile_failure_short_circuit:
  assumes "tok = Some t" and "t \<noteq> []" and "users up u = Response st body"
  shows "(st = 404 \<longrightarrow> analyze tok up order u q = (Failure 404 ''User not found'', [GetUser u]))
       \<and> (st = 401 \<longrightarrow> analyze tok up order u q =
                          (Failure 401 ''GitHub Token is invalid or expired.'', [GetUser u]))"
  using assms by (simp add: analyze_def)

theorem profile_failure_short_circuit_witness:
  "Some ''token'' = Some ''token'' \<and> ''token'' \<noteq> []
   \<and> users (example_upstream\<lparr>users := \<lambda>username. Response 404 (Json error_profile)\<rparr>) ''nobody''
       = Response 404 (Json error_profile)
   \<and> analyze (Some ''token'')
        (example_upstream\<lparr>users := \<lambda>username. Response 404 (Json error_profile)\<rparr>) [] ''nobody''
        QAbsent
       = (Failure 404 ''User not found'', [GetUser ''nobody''])
   \<and> users (example_upstream\<lparr>users := \<lambda>username. Response 401 (Unparseable ''bad'')\<rparr>) ''octocat''
       = Response 401 (Unparseable ''bad'')
   \<and> analyze (Some ''token'')
        (example_upstream\<lparr>users := \<lambda>username. Response 401 (Unparseable ''bad'')\<rparr>) [] ''octocat''
        (QString ''true'')
       = (Failure 401 ''GitHub Token is invalid or expired.'', [GetUser ''octocat''])"
  using
    profile_failure_short_circuit [of "Some ''token''" "''token''"
      "example_upstream\<lparr>users := \<lambda>username. Response 404 (Json error_profile)\<rparr>" "''nobody''"
      404 "Json error_profile" "[]" QAbsent]
    profile_failure_short_circuit [of "Some ''token''" "''token''"
      "example_upstream\<lparr>users := \<lambda>username. Response 401 (Unparseable ''bad'')\<rparr>" "''octocat''"
      401 "Unparseable ''bad''" "[]" "QString ''true''"]
  by simp

text \<open>
  What the handler does with any other status of the profile response: nothing. A body
  that is not JSON ends in the outer \<^verbatim>\<open>catch\<close>; with a body that parses, the
  repository request is issued.
\<close>

lemma other_status_passes:
  assumes "tok = Some t" and "t \<noteq> []" and "users up u = Response st body"
    and "st \<noteq> 404" and "st \<noteq> 401"
  shows "(\<forall>prof. body = Json prof \<longrightarrow> GetRepos u \<in> set (snd (analyze tok up order u q)))
       \<and> (\<forall>msg. body = Unparseable msg \<longrightarrow>
              analyze tok up order u q = (internal_error msg, [GetUser u]))"
  using assms
  by (auto simp: analyze_def Let_def split: fetched.splits body.splits)

text \<open>
  Claim C9. With a token configured and a profile response that is neither 404 nor 401
  and parses, a repository-list response that parses to something other than an array
  gives a successful response over the empty repository list: no repositories, no
  language totals, the score of the profile with no repositories and no languages, and
  no language request. It is the response the handler gives when the upstream sends the
  empty array.
\<close>

theorem non_array_repos:
  assumes "tok = Some t" and "t \<noteq> []"
    and "users up u = Response st (Json prof)" and "st \<noteq> 404" and "st \<noteq> 401"
    and "user_repos up u = Response st' (Json NotArray)"
  shows "analyze tok up order u q =
           (Success \<lparr>profile = prof, repositories = [], languagesByBytes = [],
                     hireabilityScore = calculateHireabilityScore prof [] ([] :: jsv jsobject)\<rparr>,
            [GetUser u, GetRepos u])
         \<and> analyze tok up order u q =
             analyze tok (up\<lparr>user_repos := \<lambda>_. Response st' (Json (Array []))\<rparr>) order u q"
  using assms
  by (simp add: analyze_def array_or_empty_def conditionalFiltering_def filterLowValueRepos_def
      aggregate_def)

theorem non_array_repos_witness:
  "Some ''token'' = Some ''token'' \<and> ''token'' \<noteq> []
   \<and> users (example_upstream\<lparr>user_repos := \<lambda>username. Response 403 (Json NotArray)\<rparr>) ''octocat''
       = Response 200 (Json octocat)
   \<and> (200 :: nat) \<noteq> 404 \<and> (200 :: nat) \<noteq> 401
   \<and> user_repos (example_upstream\<lparr>user_repos := \<lambda>username. Response 403 (Json NotArray)\<rparr>)
        ''octocat'' = Response 403 (Json NotArray)
   \<and> analyze (Some ''token'')
        (example_upstream\<lparr>user_repos := \<lambda>username. Response 403 (Json NotArray)\<rparr>) [] ''octocat''
        (QString ''true'')
       = (Success \<lparr>profile = octocat, repositories = [], languagesByBytes = [],
                   hireabilityScore = Num 4\<rparr>,
          [GetUser ''octocat'', GetRepos ''octocat''])"
proof -
  have u: "users (example_upstream\<lparr>user_repos := \<lambda>username. Response 403 (Json NotArray)\<rparr>)
             ''octocat'' = Response 200 (Json octocat)"
    by (simp add: example_upstream_def)
  have r: "user_repos (example_upstream\<lparr>user_repos := \<lambda>username. Response 403 (Json NotArray)\<rparr>)
             ''octocat'' = Response 403 (Json NotArray)"
    by simp
  have s: "calculateHireabilityScore octocat [] ([] :: jsv jsobject) = Num 4"
    by (simp add: calculateHireabilityScore_def followers_num_def octocat_def Object_keys_def)
  show ?thesis
    using non_array_repos [of "Some ''token''" "''token''" _ "''octocat''" 200 octocat 403 "[]"
        "QString ''true''", OF _ _ u _ _ r] u r s
    by simp
qed

text \<open>
  Claim C7. Whenever the handler answers with a result, the repositories in it are the
  effective list (the fetched list, filtered when the toggle is on), the language
  totals in it are aggregated from the language requests of exactly these repositories,
  the score in it is computed from exactly these repositories and these totals, and
  the language requests issued are those of these repositories.
\<close>

theorem reported_repositories_consistent:
  assumes "analyze tok up order u q = (Success res, calls)"
  shows "\<exists>st fetchedRepos.
           user_repos up u = Response st (Json fetchedRepos)
           \<and> repositories res = conditionalFiltering (shouldFilter q) (array_or_empty fetchedRepos)
           \<and> languagesByBytes res =
               aggregate (map (\<lambda>repo. repo_languages up u (name repo))
                            (completion_order order (repositories res)))
           \<and> hireabilityScore res =
               calculateHireabilityScore (profile res) (repositories res) (languagesByBytes res)
           \<and> calls = [GetUser u, GetRepos u]
                       @ map (\<lambda>repo. GetLanguages u (name repo)) (repositories res)"
  using assms
  by (auto simp: analyze_def internal_error_def Let_def
      split: if_splits fetched.splits body.splits)

lemma example_run:
  "analyze (Some ''token'') example_upstream [1] ''octocat'' (QString ''true'') =
     (Success \<lparr>profile = octocat, repositories = [hello_repo, world_repo],
               languagesByBytes = [(''JavaScript'', JNum 350), (''C'', JNum 100)],
               hireabilityScore = Num 14\<rparr>,
      [GetUser ''octocat'', GetRepos ''octocat'', GetLanguages ''octocat'' ''hello'',
       GetLanguages ''octocat'' ''world''])"
proof -
  have f: "conditionalFiltering True example_repos = [hello_repo, world_repo]"
    using filter_example by simp
  have c: "completion_order [1] [hello_repo, world_repo] = [world_repo, hello_repo]"
    by (simp add: Let_def)
  have a: "aggregate [example_languages ''world'', example_languages ''hello'']
             = [(''JavaScript'', JNum 350), (''C'', JNum 100)]"
    by (simp add: aggregate_def example_languages_def fetched_bytes_def languages_callback_def
        or_empty_def Object_entries_def)
  have s: "calculateHireabilityScore octocat [hello_repo, world_repo]
             [(''JavaScript'', JNum 350), (''C'', JNum 100)] = Num 14"
    by (simp add: calculateHireabilityScore_def followers_num_def octocat_def Object_keys_def)
  have n: "name hello_repo = ''hello''" "name world_repo = ''world''"
    by (simp_all add: hello_repo_def world_repo_def)
  show ?thesis
    by (simp add: analyze_def example_upstream_def array_or_empty_def shouldFilter_def f c a s n)
qed

theorem reported_repositories_consistent_witness:
  "analyze (Some ''token'') example_upstream [1] ''octocat'' (QString ''true'') =
     (Success \<lparr>profile = octocat, repositories = [hello_repo, world_repo],
               languagesByBytes = [(''JavaScript'', JNum 350), (''C'', JNum 100)],
               hireabilityScore = Num 14\<rparr>,
      [GetUser ''octocat'', GetRepos ''octocat'', GetLanguages ''octocat'' ''hello'',
       GetLanguages ''octocat'' ''world''])
   \<and> (\<exists>st fetchedRepos.
         user_repos example_upstream ''octocat'' = Response st (Json fetchedRepos)
         \<and> [hello_repo, world_repo]
             = conditionalFiltering (shouldFilter (QString ''true'')) (array_or_empty fetchedRepos)
         \<and> [(''JavaScript'', JNum 350), (''C'', JNum 100)]
             = aggregate (map (\<lambda>repo. repo_languages example_upstream ''octocat'' (name repo))
                            (completion_order [1] [hello_repo, world_repo]))
         \<and> Num 14 = calculateHireabilityScore octocat [hello_repo, world_repo]
                       [(''JavaScript'', JNum 350), (''C'', JNum 100)])"
  using example_run reported_repositories_consistent [OF example_run]
  by auto

subsection \<open>The language aggregation\<close>

lemma languages_callback_merged:
  "languages_callback langTotals lg = add_entries langTotals (merged_entries lg)"
  by (simp add: languages_callback_def merged_entries_def split: fetched.splits body.splits)

lemma keys_add_entries:
  "fst ` set (add_entries langTotals es) = fst ` set langTotals \<union> fst ` set es"
  by (induction langTotals es rule: add_entries.induct) (auto simp: dom_update)

lemma distinct_add_entries:
  "distinct (map fst langTotals) \<Longrightarrow> distinct (map fst (add_entries langTotals es))"
  by (induction langTotals es rule: add_entries.induct) (simp_all add: distinct_update)

text \<open>The totals the handler builds are an object: no key occurs twice.\<close>

lemma distinct_aggregate: "distinct (Object_keys (aggregate outcomes))"
proof -
  have "distinct (map fst langTotals) \<Longrightarrow>
        distinct (map fst (foldl languages_callback langTotals outcomes))" for langTotals
    by (induction outcomes arbitrary: langTotals)
       (simp_all add: languages_callback_merged distinct_add_entries)
  from this [of "[]"] show ?thesis
    by (simp add: aggregate_def Object_keys_def)
qed

lemma numeric_lookup:
  "numeric langTotals \<Longrightarrow>
   map_of langTotals lang =
     (if lang \<in> fst ` set langTotals then Some (JNum (num_of (map_of langTotals lang))) else None)"
proof (cases "map_of langTotals lang")
  case None
  then show ?thesis by (simp add: map_of_eq_None_iff)
next
  case (Some v)
  assume "numeric langTotals"
  moreover have "(lang, v) \<in> set langTotals"
    using Some by (rule map_of_SomeD)
  ultimately have "is_number v"
    by (auto simp: numeric_def list_all_iff)
  then obtain n where "v = JNum n"
    by (cases v) simp_all
  moreover have "lang \<in> fst ` set langTotals"
    using Some by (metis domI dom_map_of_conv_image_fst)
  ultimately show ?thesis
    using Some by simp
qed

lemma numeric_cases:
  assumes "numeric langTotals"
  shows "map_of langTotals lang = None \<or> (\<exists>n. map_of langTotals lang = Some (JNum n))"
  using numeric_lookup [OF assms, of lang] by (cases "lang \<in> fst ` set langTotals") auto

text \<open>One step of the loop on numbers: \<^verbatim>\<open>(langTotals[lang] || 0) + bytes\<close> is the sum.\<close>

lemma numeric_step:
  assumes "numeric langTotals"
  shows "js_plus (or_zero (map_of langTotals lang)) (JNum b)
           = JNum (num_of (map_of langTotals lang) + b)"
  using numeric_cases [OF assms, of lang] by auto

lemma numeric_update:
  "numeric langTotals \<Longrightarrow> numeric (AList.update lang (JNum n) langTotals)"
  by (induction langTotals) (auto simp: numeric_def)

lemma numeric_add_entries:
  "numeric langTotals \<Longrightarrow> numeric es \<Longrightarrow> numeric (add_entries langTotals es)"
proof (induction langTotals es rule: add_entries.induct)
  case (1 langTotals)
  then show ?case by simp
next
  case (2 langTotals lang bytes rest)
  from "2.prems"(2) obtain b where b: "bytes = JNum b" and rest: "numeric rest"
    by (cases bytes) (simp_all add: numeric_def)
  show ?case
    using "2.IH" "2.prems"(1) rest
    by (simp add: b numeric_step numeric_update)
qed

lemma value_add_entries:
  "numeric langTotals \<Longrightarrow> numeric es \<Longrightarrow>
   num_of (map_of (add_entries langTotals es) lang)
     = num_of (map_of langTotals lang) + bytes_in es lang"
proof (induction langTotals es rule: add_entries.induct)
  case (1 langTotals)
  then show ?case by (simp add: bytes_in_def)
next
  case (2 langTotals l bytes rest)
  from "2.prems"(2) obtain b where b: "bytes = JNum b" and rest: "numeric rest"
    by (cases bytes) (simp_all add: numeric_def)
  have "numeric (AList.update l (JNum (num_of (map_of langTotals l) + b)) langTotals)"
    using "2.prems"(1) by (rule numeric_update)
  then show ?case
    using "2.IH" "2.prems"(1) rest
    by (simp add: b numeric_step update_conv' bytes_in_def)
qed

lemma keys_foldl:
  "fst ` set (foldl languages_callback langTotals outcomes)
     = fst ` set langTotals \<union> (\<Union>lg \<in> set outcomes. fst ` set (merged_entries lg))"
  by (induction outcomes arbitrary: langTotals)
     (auto simp: languages_callback_merged keys_add_entries)

lemma numeric_foldl:
  "numeric langTotals \<Longrightarrow> \<forall>lg \<in> set outcomes. numeric (merged_entries lg) \<Longrightarrow>
   numeric (foldl languages_callback langTotals outcomes)"
  by (induction outcomes arbitrary: langTotals)
     (simp_all add: languages_callback_merged numeric_add_entries)

lemma value_foldl:
  "numeric langTotals \<Longrightarrow> \<forall>lg \<in> set outcomes. numeric (merged_entries lg) \<Longrightarrow>
   num_of (map_of (foldl languages_callback langTotals outcomes) lang)
     = num_of (map_of langTotals lang) + (\<Sum>lg\<leftarrow>outcomes. bytes_in (merged_entries lg) lang)"
  by (induction outcomes arbitrary: langTotals)
     (simp_all add: languages_callback_merged numeric_add_entries value_add_entries)

text \<open>
  The totals, in the model, of any outcomes that carry numbers only, requests that throw
  included: a language has an entry when some outcome has one for it, and its total is
  the sum over the outcomes.
\<close>

lemma aggregate_totals:
  assumes "\<forall>lg \<in> set outcomes. numeric (merged_entries lg)"
  shows "map_of (aggregate outcomes) lang =
           (if lang \<in> (\<Union>lg \<in> set outcomes. fst ` set (merged_entries lg))
            then Some (JNum (\<Sum>lg\<leftarrow>outcomes. bytes_in (merged_entries lg) lang))
            else None)"
proof -
  have e: "numeric []"
    by (simp add: numeric_def)
  have "numeric (aggregate outcomes)"
    unfolding aggregate_def using e assms by (rule numeric_foldl)
  then have "map_of (aggregate outcomes) lang =
          (if lang \<in> fst ` set (aggregate outcomes)
           then Some (JNum (num_of (map_of (aggregate outcomes) lang))) else None)"
    by (rule numeric_lookup)
  moreover have "fst ` set (aggregate outcomes)
                   = (\<Union>lg \<in> set outcomes. fst ` set (merged_entries lg))"
    unfolding aggregate_def using keys_foldl [of "[]" outcomes] by simp
  moreover have "num_of (map_of (aggregate outcomes) lang)
                   = (\<Sum>lg\<leftarrow>outcomes. bytes_in (merged_entries lg) lang)"
    unfolding aggregate_def using value_foldl [OF e assms, of lang] by simp
  ultimately show ?thesis
    by (simp only:)
qed

lemma sum_list_mset_cong:
  fixes f :: "'a \<Rightarrow> int"
  assumes "mset xs = mset ys"
  shows "(\<Sum>x\<leftarrow>xs. f x) = (\<Sum>x\<leftarrow>ys. f x)"
proof -
  have "mset (map f xs) = mset (map f ys)"
    using assms by (metis mset_map)
  then show ?thesis
    by (metis sum_mset_sum_list)
qed

lemma aggregate_permutation:
  assumes "mset outcomes' = mset outcomes"
    and "\<forall>lg \<in> set outcomes. numeric (merged_entries lg)"
  shows "map_of (aggregate outcomes') = map_of (aggregate outcomes)"
proof
  fix lang
  have s: "set outcomes' = set outcomes"
    using assms(1) by (rule mset_eq_setD)
  then have n: "\<forall>lg \<in> set outcomes'. numeric (merged_entries lg)"
    using assms(2) by simp
  show "map_of (aggregate outcomes') lang = map_of (aggregate outcomes) lang"
    using sum_list_mset_cong [OF assms(1), of "\<lambda>lg. bytes_in (merged_entries lg) lang"]
    by (simp add: aggregate_totals [OF n] aggregate_totals [OF assms(2)] s)
qed

lemma merged_fetched_bytes:
  "merged_entries (fetched_bytes m) = map (\<lambda>(lang, b). (lang, JNum b)) m"
  by (simp add: merged_entries_def fetched_bytes_def or_empty_def Object_entries_def)

lemma numeric_fetched_bytes: "numeric (merged_entries (fetched_bytes m))"
  by (induction m) (auto simp: merged_fetched_bytes numeric_def)

lemma keys_fetched_bytes: "fst ` set (merged_entries (fetched_bytes m)) = fst ` set m"
  by (force simp: merged_fetched_bytes)

lemma bytes_in_fetched_bytes:
  "distinct (map fst m) \<Longrightarrow> bytes_in (merged_entries (fetched_bytes m)) lang = bytes_of m lang"
proof (induction m)
  case Nil
  then show ?case by (simp add: merged_fetched_bytes bytes_in_def bytes_of_def)
next
  case (Cons e m)
  obtain k b where e: "e = (k, b)" by (cases e)
  have notin: "k \<notin> fst ` set m"
    using Cons.prems by (simp add: e)
  have "lang = k \<Longrightarrow> map_of m lang = None"
    using notin by (simp add: map_of_eq_None_iff)
  then show ?case
    using Cons by (auto simp: e merged_fetched_bytes bytes_in_def bytes_of_def)
qed

text \<open>
  Claim C5. For language maps of the repositories (objects whose keys are language
  names, none the name of an inherited member, and whose values are byte counts, not
  negative and together within the integers that doubles add exactly), the totals do
  not depend on the order in which the maps are merged: any permutation of the list
  gives the same mapping, which sends each language to the sum of its byte counts over
  all the maps and has no other entry.
\<close>

theorem aggregation_order_independent:
  assumes "mset ms' = mset ms" and "\<forall>m \<in> set ms. distinct (Object_keys m)"
    and "\<forall>m \<in> set ms. byte_map m" and "total_bytes ms \<le> MAX_SAFE_INTEGER"
  shows "map_of (aggregate (map fetched_bytes ms')) = map_of (aggregate (map fetched_bytes ms))
       \<and> map_of (aggregate (map fetched_bytes ms)) = pointwise_sum ms"
proof
  have num: "\<forall>lg \<in> set (map fetched_bytes ms). numeric (merged_entries lg)"
    by (simp add: numeric_fetched_bytes)
  have "mset (map fetched_bytes ms') = mset (map fetched_bytes ms)"
    using assms(1) by (metis mset_map)
  then show "map_of (aggregate (map fetched_bytes ms')) = map_of (aggregate (map fetched_bytes ms))"
    using num by (rule aggregate_permutation)
  show "map_of (aggregate (map fetched_bytes ms)) = pointwise_sum ms"
  proof
    fix lang
    have "(\<Sum>lg\<leftarrow>map fetched_bytes ms. bytes_in (merged_entries lg) lang)
            = (\<Sum>m\<leftarrow>ms. bytes_of m lang)"
      using assms(2)
      by (induction ms) (simp_all add: bytes_in_fetched_bytes Object_keys_def)
    then show "map_of (aggregate (map fetched_bytes ms)) lang = pointwise_sum ms lang"
      by (simp add: aggregate_totals [OF num] pointwise_sum_def keys_fetched_bytes)
  qed
qed

theorem aggregation_order_independent_witness:
  "mset (rev six_maps) = mset six_maps
   \<and> list_all (\<lambda>m. distinct (Object_keys m)) six_maps
   \<and> list_all byte_map six_maps
   \<and> total_bytes six_maps \<le> MAX_SAFE_INTEGER
   \<and> map_of (aggregate (map fetched_bytes (rev six_maps)))
       = map_of (aggregate (map fetched_bytes six_maps))
   \<and> map_of (aggregate (map fetched_bytes six_maps)) = pointwise_sum six_maps"
proof -
  have p: "mset (rev six_maps) = mset six_maps"
    by simp
  have d: "\<forall>m \<in> set six_maps. distinct (Object_keys m)"
    by (simp add: six_maps_def Object_keys_def)
  have b: "\<forall>m \<in> set six_maps. byte_map m"
    by (simp add: six_maps_def byte_map_def prototype_members_def)
  have t: "total_bytes six_maps \<le> MAX_SAFE_INTEGER"
    by (simp add: six_maps_def total_bytes_def MAX_SAFE_INTEGER_def)
  show ?thesis
    using p d b t aggregation_order_independent [OF p d b t] by (simp add: list_all_iff)
qed

text \<open>Scenario D, computed: the totals of the six maps in list order and in reverse.\<close>

lemma six_maps_totals:
  "aggregate (map fetched_bytes six_maps)
     = [(''JavaScript'', JNum 352), (''C'', JNum 106), (''Python'', JNum 20), (''Go'', JNum 7)]
   \<and> aggregate (map fetched_bytes (rev six_maps))
     = [(''C'', JNum 106), (''JavaScript'', JNum 352), (''Go'', JNum 7), (''Python'', JNum 20)]"
  by (simp add: six_maps_def aggregate_def fetched_bytes_def languages_callback_def or_empty_def
      Object_entries_def)

text \<open>The completion orders of the model are exactly the permutations.\<close>

lemma mset_remove_nth:
  assumes "i < length xs"
  shows "mset (take i xs @ drop (Suc i) xs) + {#xs ! i#} = mset xs"
proof -
  have "xs = take i xs @ xs ! i # drop (Suc i) xs"
    using assms by (rule id_take_nth_drop)
  then have "mset xs = mset (take i xs @ xs ! i # drop (Suc i) xs)"
    by simp
  then show ?thesis by simp
qed

lemma mset_completion_order: "mset (completion_order cs xs) = mset xs"
proof (induction cs xs rule: completion_order.induct)
  case (3 c cs x xs)
  define i where "i = c mod length (x # xs)"
  have i: "i < length (x # xs)"
    unfolding i_def by simp
  have "mset (completion_order (c # cs) (x # xs))
          = {#(x # xs) ! i#} + mset (take i (x # xs) @ drop (Suc i) (x # xs))"
    using "3.IH" [of i] by (simp add: i_def Let_def)
  then show ?case
    using mset_remove_nth [OF i] by (simp add: add.commute)
qed simp_all

lemma completion_order_complete:
  "mset ys = mset xs \<Longrightarrow> \<exists>cs. completion_order cs xs = ys"
proof (induction ys arbitrary: xs)
  case Nil
  then show ?case by simp
next
  case (Cons y ys)
  have "y \<in> set xs"
    using Cons.prems by (metis list.set_intros(1) mset_eq_setD)
  then obtain i where i: "i < length xs" and y: "xs ! i = y"
    by (auto simp: in_set_conv_nth)
  obtain x xs' where xs: "xs = x # xs'"
    using i by (cases xs) simp_all
  have "mset (take i xs @ drop (Suc i) xs) + {#y#} = mset ys + {#y#}"
    using mset_remove_nth [OF i] Cons.prems y by simp
  then have "mset ys = mset (take i xs @ drop (Suc i) xs)"
    by simp
  from Cons.IH [OF this] obtain cs
    where cs: "completion_order cs (take i xs @ drop (Suc i) xs) = ys" ..
  have "completion_order (i # cs) xs = y # ys"
    using i y cs unfolding xs by (simp add: Let_def)
  then show ?case ..
qed

text \<open>
  The handler of the model under two completion orders of the language requests: the
  same requests, profile, repositories and score, the same language keys, and, when
  the language responses carry numbers only, the same totals. For the code this is so
  where the keys and the numbers are as in \<open>byte_map\<close> and within
  \<open>MAX_SAFE_INTEGER\<close>.
\<close>

lemma keys_aggregate_permutation:
  assumes "mset outcomes' = mset outcomes"
  shows "set (Object_keys (aggregate outcomes')) = set (Object_keys (aggregate outcomes))"
    and "length (Object_keys (aggregate outcomes')) = length (Object_keys (aggregate outcomes))"
proof -
  have "set outcomes' = set outcomes"
    using assms by (rule mset_eq_setD)
  then show s: "set (Object_keys (aggregate outcomes')) = set (Object_keys (aggregate outcomes))"
    by (simp add: Object_keys_def aggregate_def keys_foldl)
  show "length (Object_keys (aggregate outcomes')) = length (Object_keys (aggregate outcomes))"
    using s distinct_card [OF distinct_aggregate, of outcomes']
      distinct_card [OF distinct_aggregate, of outcomes]
    by simp
qed

lemma analyze_order_independent:
  assumes "analyze tok up order u q = (Success res, calls)"
  shows "\<exists>res'. analyze tok up order' u q = (Success res', calls)
           \<and> profile res' = profile res \<and> repositories res' = repositories res
           \<and> hireabilityScore res' = hireabilityScore res
           \<and> set (Object_keys (languagesByBytes res')) = set (Object_keys (languagesByBytes res))
           \<and> ((\<forall>repo \<in> set (repositories res).
                   numeric (merged_entries (repo_languages up u (name repo))))
                \<longrightarrow> map_of (languagesByBytes res') = map_of (languagesByBytes res))"
proof -
  from assms obtain t st prof st' fetchedRepos where
    h: "tok = Some t" "t \<noteq> []" "users up u = Response st (Json prof)"
       "st \<noteq> 404" "st \<noteq> 401" "user_repos up u = Response st' (Json fetchedRepos)"
    by (rule analyze_SuccessD)
  define finalRepos where
    "finalRepos = conditionalFiltering (shouldFilter q) (array_or_empty fetchedRepos)"
  define outcomes where
    "outcomes ord = map (\<lambda>repo. repo_languages up u (name repo)) (completion_order ord finalRepos)"
    for ord
  have p: "mset (outcomes order') = mset (outcomes order)"
    by (simp add: outcomes_def mset_completion_order)
  have res: "res = \<lparr>profile = prof, repositories = finalRepos,
                     languagesByBytes = aggregate (outcomes order),
                     hireabilityScore =
                       calculateHireabilityScore prof finalRepos (aggregate (outcomes order))\<rparr>"
    and calls: "calls = [GetUser u, GetRepos u]
                          @ map (\<lambda>repo. GetLanguages u (name repo)) finalRepos"
    using assms analyze_Success [OF h, of order q]
    by (simp_all add: Let_def finalRepos_def outcomes_def)
  have "set (outcomes order) = (\<lambda>repo. repo_languages up u (name repo)) ` set finalRepos"
    using mset_eq_setD [OF mset_completion_order, of order finalRepos]
    by (simp add: outcomes_def)
  then have num: "\<forall>repo \<in> set finalRepos.
                    numeric (merged_entries (repo_languages up u (name repo)))
                  \<Longrightarrow> \<forall>lg \<in> set (outcomes order). numeric (merged_entries lg)"
    by simp
  have score: "calculateHireabilityScore prof finalRepos (aggregate (outcomes order'))
                 = calculateHireabilityScore prof finalRepos (aggregate (outcomes order))"
    using keys_aggregate_permutation(2) [OF p]
    by (simp add: calculateHireabilityScore_def)
  show ?thesis
    using analyze_Success [OF h, of order' q] keys_aggregate_permutation(1) [OF p]
      aggregate_permutation [OF p] num score
    by (auto simp: Let_def res calls finalRepos_def [symmetric] outcomes_def [symmetric])
qed

text \<open>
  A language request that throws (the request itself, or the parsing of its body)
  leaves the totals as they are, and no outcome of a language request makes the
  handler answer with an error.
\<close>

lemma thrown_language_fetch_is_noop:
  "languages_callback langTotals (Rejected e) = langTotals
   \<and> languages_callback langTotals (Response status (Unparseable e)) = langTotals"
  by (simp add: languages_callback_def)

lemma language_fetch_never_aborts:
  assumes "tok = Some t" and "t \<noteq> []"
    and "users up u = Response st (Json prof)" and "st \<noteq> 404" and "st \<noteq> 401"
    and "user_repos up u = Response st' (Json fetchedRepos)"
  shows "\<exists>res calls. analyze tok up order u q = (Success res, calls)"
  using assms by (simp add: analyze_def Let_def)

lemma ToString_zero: "ToString (JNum 0) = ''0''"
  by code_simp

text \<open>
  Claim C6, on a language request that fails with a status: a user with no followers
  and one repository, whose language request is answered with status 403 and the error
  object. The callback does not look at the status; the two properties of the error
  object become entries of the totals, and the score counts them as two languages.
\<close>

theorem failed_language_fetch_adds_entries:
  "analyze (Some ''token'') languages_limited [] ''octocat'' QAbsent =
     (Success \<lparr>profile = newcomer, repositories = [hello_repo],
               languagesByBytes =
                 [(''message'', JStr ''0API rate limit exceeded''),
                  (''documentation_url'', JStr ''0https://docs.github.com/rest'')],
               hireabilityScore = Num 10\<rparr>,
      [GetUser ''octocat'', GetRepos ''octocat'', GetLanguages ''octocat'' ''hello''])"
  by (simp add: languages_limited_def analyze_def array_or_empty_def conditionalFiltering_def
      shouldFilter_def aggregate_def calculateHireabilityScore_def followers_num_def
      newcomer_def hello_repo_def languages_callback_def or_empty_def Object_entries_def
      Object_keys_def error_object_def ToString_zero del: ToString.simps(1))

end
